theory Spec2Isabelle
  imports Complex_Main
begin

section \<open>Carbon credit monitoring: the schema, its procedures and its trigger\<close>

text \<open>
  The development follows \<^verbatim>\<open>database/carbon_schema.sql\<close> and
  \<^verbatim>\<open>backend/server.js\<close>. Modelling conventions:
  \<^item> a table is the list of its rows, in insertion order; a row is a record with the
    table's columns. A nullable column has an \<open>option\<close> type, \<open>None\<close> being NULL;
  \<^item> the \<^verbatim>\<open>FLOAT\<close> columns and variables are exact rationals: rounding of binary
    floating point is not part of the model;
  \<^item> a datetime is the natural number \<^verbatim>\<open>YYYYMMDDhhmmss\<close>, so that
    \<^verbatim>\<open>DATE_FORMAT(NOW(), '%Y%m%d%H%i%s')\<close> is its decimal notation and the order of
    datetimes is the order of the numbers; a date is the number \<^verbatim>\<open>YYYYMMDD\<close>;
  \<^item> \<^verbatim>\<open>NOW()\<close> and the draws of \<^verbatim>\<open>RAND()\<close> are inputs of a statement (the
    record \<open>env\<close>);
  \<^item> a statement either succeeds and yields the new database, or fails with an error and
    leaves the database as it was (\<open>Inl\<close>): the declared \<^verbatim>\<open>PRIMARY KEY\<close>,
    \<^verbatim>\<open>NOT NULL\<close> and \<^verbatim>\<open>FOREIGN KEY\<close> constraints are checks of the insertions.
    A failure inside the trigger fails the triggering \<^verbatim>\<open>INSERT\<close>.
  One restriction of the database engine bears on the trigger and is part of the model:
  a trigger, and a routine called from it, cannot modify the table that the triggering
  statement uses (MySQL error 1442). Such a statement fails, and with it the trigger.
\<close>

subsection \<open>Rows and tables\<close>

datatype credit_status = earned | deficit | neutral

datatype severity = low | medium | high | critical

datatype sql_error =
    Duplicate_entry        \<comment> \<open>a \<^verbatim>\<open>PRIMARY KEY\<close> value is already present\<close>
  | Column_cannot_be_null  \<comment> \<open>NULL for a \<^verbatim>\<open>NOT NULL\<close> column\<close>
  | Foreign_key_fails      \<comment> \<open>the referenced row does not exist\<close>
  | More_than_one_row      \<comment> \<open>\<^verbatim>\<open>SELECT ... INTO\<close> found several rows\<close>
  | Cant_update_used_table \<comment> \<open>error 1442: the table is used by the triggering statement\<close>

record user_row =
  user_id :: int
  email :: string

record sensor_row =
  sensor_id :: string
  sensor_type :: string
  s_status :: "string option"
  location :: "string option"
  s_user_id :: int

record emission_row =
  emission_id :: string
  timestamp :: nat
  co2_value :: rat
  pm25_value :: "rat option"
  temperature :: "rat option"
  humidity :: "rat option"
  e_sensor_id :: string
  e_alert_id :: "string option"

record credit_row =
  credit_id :: string
  report_id :: "string option"
  calculated_date :: nat
  emission_value :: rat
  allowed_limit :: rat
  credit_amount :: rat
  c_status :: credit_status

record map_row =
  map_id :: string
  m_credit_id :: string
  m_emission_id :: string
  weight_factor :: "rat option"
  included_flag :: "bool option"

record alert_row =
  alert_id :: string
  alert_type :: string
  threshold_value :: rat
  alert_message :: string
  created_at :: "nat option"
  is_read :: "bool option"
  a_user_id :: int
  a_severity :: "severity option"

record db =
  User :: "user_row list"
  Sensor :: "sensor_row list"
  Emission_Data :: "emission_row list"
  Carbon_Credit :: "credit_row list"
  Credit_Emission_Map :: "map_row list"
  Alert :: "alert_row list"

definition empty_db :: db where
  "empty_db = \<lparr>User = [], Sensor = [], Emission_Data = [], Carbon_Credit = [],
     Credit_Emission_Map = [], Alert = []\<rparr>"

subsection \<open>The inputs of a statement: clock, random draws, number formatting\<close>

record env =
  now :: nat                    \<comment> \<open>\<^verbatim>\<open>NOW()\<close>, as \<^verbatim>\<open>YYYYMMDDhhmmss\<close>\<close>
  rand_alert :: rat             \<comment> \<open>the draw of \<^verbatim>\<open>RAND()\<close> in \<^verbatim>\<open>check_emission_threshold\<close>\<close>
  rand_credit :: rat            \<comment> \<open>the draw of \<^verbatim>\<open>RAND()\<close> in \<^verbatim>\<open>calculate_carbon_credits\<close>\<close>
  show_float :: "rat \<Rightarrow> string"  \<comment> \<open>how \<^verbatim>\<open>CONCAT\<close> prints a \<^verbatim>\<open>FLOAT\<close>\<close>

text \<open>The decimal notation of a number, as \<^verbatim>\<open>CONCAT\<close> and a template literal print it.\<close>

definition digit_char :: "nat \<Rightarrow> char" where
  "digit_char k = ''0123456789'' ! k"

fun show_nat :: "nat \<Rightarrow> string" where
  "show_nat n =
     (if n < 10 then [digit_char n]
      else show_nat (n div 10) @ [digit_char (n mod 10)])"

declare show_nat.simps [simp del]

definition curdate :: "env \<Rightarrow> nat" where
  "curdate ev = now ev div 1000000"

subsection \<open>Procedure \<^verbatim>\<open>calculate_carbon_credits\<close>\<close>

text \<open>Line 150: \<^verbatim>\<open>SET p_credit_amount = (p_allowed_limit - v_emission_value) / 1000\<close>.\<close>

definition compute_credit_amount :: "rat \<Rightarrow> rat \<Rightarrow> rat" where
  "compute_credit_amount p_allowed_limit v_emission_value =
     (p_allowed_limit - v_emission_value) / 1000"

text \<open>Lines 153--159: the \<^verbatim>\<open>IF ... ELSEIF ... ELSE\<close> on the amount.\<close>

definition determine_status :: "rat \<Rightarrow> credit_status" where
  "determine_status p_credit_amount =
     (if p_credit_amount > 0 then earned
      else if p_credit_amount < 0 then deficit
      else neutral)"

text \<open>\<^verbatim>\<open>SELECT co2_value INTO v_emission_value FROM Emission_Data WHERE emission_id = ...\<close>\<close>

definition select_co2_value :: "string \<Rightarrow> db \<Rightarrow> rat list" where
  "select_co2_value p_emission_id d =
     map co2_value (filter (\<lambda>e. emission_id e = p_emission_id) (Emission_Data d))"

definition insert_credit :: "credit_row \<Rightarrow> db \<Rightarrow> sql_error + db" where
  "insert_credit c d =
     (if credit_id c \<in> set (map credit_id (Carbon_Credit d)) then Inl Duplicate_entry
      else Inr (d\<lparr>Carbon_Credit := Carbon_Credit d @ [c]\<rparr>))"

definition insert_map :: "map_row \<Rightarrow> db \<Rightarrow> sql_error + db" where
  "insert_map m d =
     (if map_id m \<in> set (map map_id (Credit_Emission_Map d)) then Inl Duplicate_entry
      else if m_credit_id m \<notin> set (map credit_id (Carbon_Credit d)) then Inl Foreign_key_fails
      else if m_emission_id m \<notin> set (map emission_id (Emission_Data d)) then Inl Foreign_key_fails
      else Inr (d\<lparr>Credit_Emission_Map := Credit_Emission_Map d @ [m]\<rparr>))"

definition new_credit_id :: "env \<Rightarrow> string" where
  "new_credit_id ev =
     ''CC_'' @ show_nat (curdate ev) @ ''_'' @ show_nat (nat \<lfloor>rand_credit ev * 10000\<rfloor>)"

text \<open>
  The procedure returns the new database and its two \<^verbatim>\<open>OUT\<close> parameters. When the
  \<^verbatim>\<open>SELECT ... INTO\<close> finds no row, \<open>v_emission_value\<close> stays NULL and the insertion
  into \<^verbatim>\<open>Carbon_Credit\<close> violates \<^verbatim>\<open>emission_value FLOAT NOT NULL\<close>.
\<close>

definition calculate_carbon_credits ::
  "env \<Rightarrow> string \<Rightarrow> rat \<Rightarrow> db \<Rightarrow> sql_error + (db \<times> rat \<times> credit_status)" where
  "calculate_carbon_credits ev p_emission_id p_allowed_limit d =
     (case select_co2_value p_emission_id d of
        [] \<Rightarrow> Inl Column_cannot_be_null
      | [v_emission_value] \<Rightarrow>
          (let p_credit_amount = compute_credit_amount p_allowed_limit v_emission_value;
               p_status = determine_status p_credit_amount;
               v_credit_id = new_credit_id ev
           in case insert_credit
                \<lparr>credit_id = v_credit_id, report_id = None, calculated_date = curdate ev,
                 emission_value = v_emission_value, allowed_limit = p_allowed_limit,
                 credit_amount = p_credit_amount, c_status = p_status\<rparr> d of
                Inl err \<Rightarrow> Inl err
              | Inr d1 \<Rightarrow>
                  (case insert_map
                     \<lparr>map_id = ''MAP_'' @ v_credit_id, m_credit_id = v_credit_id,
                      m_emission_id = p_emission_id, weight_factor = Some 1.0,
                      included_flag = Some True\<rparr> d1 of
                     Inl err \<Rightarrow> Inl err
                   | Inr d2 \<Rightarrow> Inr (d2, p_credit_amount, p_status)))
      | _ \<Rightarrow> Inl More_than_one_row)"

subsection \<open>Procedure \<^verbatim>\<open>check_emission_threshold\<close>\<close>

text \<open>Lines 227--231: the \<^verbatim>\<open>CASE\<close> that grades an alert.\<close>

definition alert_severity :: "rat \<Rightarrow> rat \<Rightarrow> severity" where
  "alert_severity v_co2_value p_threshold =
     (if v_co2_value > p_threshold * 1.2 then critical
      else if v_co2_value > p_threshold * 1.1 then high
      else medium)"

text \<open>Lines 204--208: the reading joined with its sensor.\<close>

definition select_emission_details :: "string \<Rightarrow> db \<Rightarrow> (rat \<times> string \<times> int) list" where
  "select_emission_details p_emission_id d =
     concat (map (\<lambda>e. map (\<lambda>s. (co2_value e, e_sensor_id e, s_user_id s))
                          (filter (\<lambda>s. e_sensor_id e = sensor_id s) (Sensor d)))
                 (filter (\<lambda>e. emission_id e = p_emission_id) (Emission_Data d)))"

definition insert_alert :: "alert_row \<Rightarrow> db \<Rightarrow> sql_error + db" where
  "insert_alert a d =
     (if alert_id a \<in> set (map alert_id (Alert d)) then Inl Duplicate_entry
      else if a_user_id a \<notin> set (map user_id (User d)) then Inl Foreign_key_fails
      else Inr (d\<lparr>Alert := Alert d @ [a]\<rparr>))"

text \<open>\<^verbatim>\<open>UPDATE Emission_Data SET alert_id = v_alert_id WHERE emission_id = p_emission_id\<close>\<close>

definition update_alert_id :: "string \<Rightarrow> string \<Rightarrow> db \<Rightarrow> db" where
  "update_alert_id p_emission_id v_alert_id d =
     d\<lparr>Emission_Data :=
          map (\<lambda>e. if emission_id e = p_emission_id then e\<lparr>e_alert_id := Some v_alert_id\<rparr> else e)
              (Emission_Data d)\<rparr>"

definition new_alert_id :: "env \<Rightarrow> string" where
  "new_alert_id ev =
     ''ALERT_'' @ show_nat (now ev) @ ''_'' @ show_nat (nat \<lfloor>rand_alert ev * 1000\<rfloor>)"

definition new_alert :: "env \<Rightarrow> rat \<Rightarrow> rat \<Rightarrow> int \<Rightarrow> alert_row" where
  "new_alert ev v_co2_value p_threshold v_user_id =
     \<lparr>alert_id = new_alert_id ev, alert_type = ''threshold_exceeded'',
      threshold_value = p_threshold,
      alert_message = ''CO2 emission exceeded threshold: '' @ show_float ev v_co2_value
        @ '' kg/hour (Limit: '' @ show_float ev p_threshold @ '' kg/hour)'',
      created_at = Some (now ev), is_read = Some False, a_user_id = v_user_id,
      a_severity = Some (alert_severity v_co2_value p_threshold)\<rparr>"

text \<open>
  When the join finds no row the variables stay NULL, the comparison
  \<^verbatim>\<open>v_co2_value > p_threshold\<close> is not true and nothing is written.
\<close>

definition check_emission_threshold :: "env \<Rightarrow> string \<Rightarrow> rat \<Rightarrow> db \<Rightarrow> sql_error + db" where
  "check_emission_threshold ev p_emission_id p_threshold d =
     (case select_emission_details p_emission_id d of
        [] \<Rightarrow> Inr d
      | [(v_co2_value, v_sensor_id, v_user_id)] \<Rightarrow>
          (if v_co2_value > p_threshold then
             (case insert_alert (new_alert ev v_co2_value p_threshold v_user_id) d of
                Inl err \<Rightarrow> Inl err
              | Inr d1 \<Rightarrow> Inr (update_alert_id p_emission_id (new_alert_id ev) d1))
           else Inr d)
      | _ \<Rightarrow> Inl More_than_one_row)"

text \<open>
  The same procedure, called from the trigger on \<^verbatim>\<open>Emission_Data\<close>. The triggering
  \<^verbatim>\<open>INSERT\<close> uses that table, so the engine refuses the procedure's
  \<^verbatim>\<open>UPDATE Emission_Data\<close> when it is reached, after the alert has been written; the
  error fails the triggering statement, which undoes the alert as well. The
  \<^verbatim>\<open>SELECT\<close> on the table is allowed.
\<close>

definition check_emission_threshold_in_trigger ::
  "env \<Rightarrow> string \<Rightarrow> rat \<Rightarrow> db \<Rightarrow> sql_error + db" where
  "check_emission_threshold_in_trigger ev p_emission_id p_threshold d =
     (case select_emission_details p_emission_id d of
        [] \<Rightarrow> Inr d
      | [(v_co2_value, v_sensor_id, v_user_id)] \<Rightarrow>
          (if v_co2_value > p_threshold then
             (case insert_alert (new_alert ev v_co2_value p_threshold v_user_id) d of
                Inl err \<Rightarrow> Inl err
              | Inr d1 \<Rightarrow> Inl Cant_update_used_table)
           else Inr d)
      | _ \<Rightarrow> Inl More_than_one_row)"

subsection \<open>Trigger \<^verbatim>\<open>after_emission_insert\<close> and the insertion of a reading\<close>

definition v_threshold :: rat where
  "v_threshold = 1000"

text \<open>
  \<^verbatim>\<open>calculate_carbon_credits\<close> only reads \<^verbatim>\<open>Emission_Data\<close> and writes the two other
  tables, which the trigger may do.
\<close>

definition after_emission_insert :: "env \<Rightarrow> emission_row \<Rightarrow> db \<Rightarrow> sql_error + db" where
  "after_emission_insert ev NEW d =
     (case check_emission_threshold_in_trigger ev (emission_id NEW) v_threshold d of
        Inl err \<Rightarrow> Inl err
      | Inr d1 \<Rightarrow>
          (if co2_value NEW \<le> v_threshold then
             (case calculate_carbon_credits ev (emission_id NEW) v_threshold d1 of
                Inl err \<Rightarrow> Inl err
              | Inr (d2, credit_amt, status) \<Rightarrow> Inr d2)
           else Inr d1))"

text \<open>
  The values bound by the \<^verbatim>\<open>INSERT INTO Emission_Data\<close> statements of the repository:
  \<^verbatim>\<open>(emission_id, NOW(), co2_value, pm25_value, temperature, humidity, sensor_id)\<close>.
  A bound parameter may be NULL; \<^verbatim>\<open>alert_id\<close> is not given and starts as NULL.
  When the trigger fails the row is not stored.
\<close>

record emission_values =
  v_emission_id :: string
  v_co2_value :: "rat option"
  v_pm25_value :: "rat option"
  v_temperature :: "rat option"
  v_humidity :: "rat option"
  v_sensor_id :: "string option"

definition insert_emission :: "env \<Rightarrow> emission_values \<Rightarrow> db \<Rightarrow> sql_error + db" where
  "insert_emission ev vals d =
     (case (v_co2_value vals, v_sensor_id vals) of
        (Some co2, Some sid) \<Rightarrow>
          (if v_emission_id vals \<in> set (map emission_id (Emission_Data d)) then Inl Duplicate_entry
           else if sid \<notin> set (map sensor_id (Sensor d)) then Inl Foreign_key_fails
           else
             (let NEW = \<lparr>emission_id = v_emission_id vals, timestamp = now ev, co2_value = co2,
                         pm25_value = v_pm25_value vals, temperature = v_temperature vals,
                         humidity = v_humidity vals, e_sensor_id = sid, e_alert_id = None\<rparr>
              in after_emission_insert ev NEW (d\<lparr>Emission_Data := Emission_Data d @ [NEW]\<rparr>)))
      | _ \<Rightarrow> Inl Column_cannot_be_null)"

subsection \<open>The rows a successful insertion writes\<close>

definition new_reading :: "env \<Rightarrow> emission_values \<Rightarrow> rat \<Rightarrow> string \<Rightarrow> emission_row" where
  "new_reading ev vals co2 sid =
     \<lparr>emission_id = v_emission_id vals, timestamp = now ev, co2_value = co2,
      pm25_value = v_pm25_value vals, temperature = v_temperature vals,
      humidity = v_humidity vals, e_sensor_id = sid, e_alert_id = None\<rparr>"

definition new_credit :: "env \<Rightarrow> rat \<Rightarrow> rat \<Rightarrow> credit_row" where
  "new_credit ev p_allowed_limit v_emission_value =
     \<lparr>credit_id = new_credit_id ev, report_id = None, calculated_date = curdate ev,
      emission_value = v_emission_value, allowed_limit = p_allowed_limit,
      credit_amount = compute_credit_amount p_allowed_limit v_emission_value,
      c_status = determine_status (compute_credit_amount p_allowed_limit v_emission_value)\<rparr>"

definition new_map :: "env \<Rightarrow> string \<Rightarrow> map_row" where
  "new_map ev p_emission_id =
     \<lparr>map_id = ''MAP_'' @ new_credit_id ev, m_credit_id = new_credit_id ev,
      m_emission_id = p_emission_id, weight_factor = Some 1, included_flag = Some True\<rparr>"

subsection \<open>The other insertions of the repository, and histories of statements\<close>

text \<open>
  \<^verbatim>\<open>INSERT INTO User (name, email, role, password_hash)\<close> of the registration route:
  \<^verbatim>\<open>user_id\<close> is \<^verbatim>\<open>AUTO_INCREMENT\<close>, \<^verbatim>\<open>email\<close> is \<^verbatim>\<open>UNIQUE\<close>. The columns that no
  modelled statement reads are left out of \<open>user_row\<close> and \<open>sensor_row\<close>.
\<close>

definition auto_increment :: "user_row list \<Rightarrow> int" where
  "auto_increment us = fold max (map user_id us) 0 + 1"

definition insert_user :: "string \<Rightarrow> db \<Rightarrow> sql_error + db" where
  "insert_user e d =
     (if e \<in> set (map email (User d)) then Inl Duplicate_entry
      else Inr (d\<lparr>User := User d @ [\<lparr>user_id = auto_increment (User d), email = e\<rparr>]\<rparr>))"

definition insert_sensor :: "sensor_row \<Rightarrow> db \<Rightarrow> sql_error + db" where
  "insert_sensor s d =
     (if sensor_id s \<in> set (map sensor_id (Sensor d)) then Inl Duplicate_entry
      else if s_user_id s \<notin> set (map user_id (User d)) then Inl Foreign_key_fails
      else Inr (d\<lparr>Sensor := Sensor d @ [s]\<rparr>))"

text \<open>
  The repository only ever inserts: no statement of it deletes a row, and the only
  \<^verbatim>\<open>UPDATE\<close> is the one of \<^verbatim>\<open>check_emission_threshold\<close>. A history is a list of
  insertions, run from the empty schema; a failed statement changes nothing.
\<close>

datatype statement =
    Insert_user string
  | Insert_sensor sensor_row
  | Insert_emission env emission_values

fun execute :: "statement \<Rightarrow> db \<Rightarrow> sql_error + db" where
  "execute (Insert_user e) d = insert_user e d"
| "execute (Insert_sensor s) d = insert_sensor s d"
| "execute (Insert_emission ev vals) d = insert_emission ev vals d"

definition step :: "db \<Rightarrow> statement \<Rightarrow> db" where
  "step d st = (case execute st d of Inl err \<Rightarrow> d | Inr d' \<Rightarrow> d')"

definition run :: "statement list \<Rightarrow> db" where
  "run sts = foldl step empty_db sts"

subsection \<open>The server: authentication middleware\<close>

record token_user =
  tu_user_id :: int
  tu_email :: string
  tu_role :: string

datatype body =
    Error_body string                 \<comment> \<open>\<^verbatim>\<open>{ error: ... }\<close>\<close>
  | Emission_recorded string          \<comment> \<open>\<^verbatim>\<open>{ message: 'Emission data recorded', emission_id }\<close>\<close>
  | Stats rat rat nat nat             \<comment> \<open>\<^verbatim>\<open>{ current_emission, total_credits, active_sensors, unread_alerts }\<close>\<close>

record response =
  status :: nat
  json :: body

datatype auth_outcome = Respond response | Next token_user

text \<open>JavaScript's \<^verbatim>\<open>s.split(c)\<close> for a one-character separator.\<close>

fun split :: "char \<Rightarrow> string \<Rightarrow> string list" where
  "split c [] = [[]]"
| "split c (x # xs) =
     (if x = c then [] # split c xs
      else (case split c xs of [] \<Rightarrow> [[x]] | y # ys \<Rightarrow> (x # y) # ys))"

text \<open>
  \<^verbatim>\<open>authHeader && authHeader.split(' ')[1]\<close>: \<open>None\<close> is \<^verbatim>\<open>undefined\<close>. An absent or
  empty header is falsy and is the value of the conjunction.
\<close>

definition header_token :: "string option \<Rightarrow> string option" where
  "header_token authHeader =
     (case authHeader of
        None \<Rightarrow> None
      | Some h \<Rightarrow>
          (if h = [] then Some []
           else (case split CHR '' '' h of (_ # t # _) \<Rightarrow> Some t | _ \<Rightarrow> None)))"

text \<open>
  \<^verbatim>\<open>jwt.verify\<close> with the server's secret is a parameter: it yields the signed payload, or
  \<open>None\<close> when it reports an error (bad signature, malformed or expired token).
\<close>

definition authenticateToken :: "(string \<Rightarrow> token_user option) \<Rightarrow> string option \<Rightarrow> auth_outcome" where
  "authenticateToken verify authHeader =
     (case header_token authHeader of
        None \<Rightarrow> Respond \<lparr>status = 401, json = Error_body ''Access token required''\<rparr>
      | Some token \<Rightarrow>
          (if token = [] then Respond \<lparr>status = 401, json = Error_body ''Access token required''\<rparr>
           else (case verify token of
                   None \<Rightarrow> Respond \<lparr>status = 403, json = Error_body ''Invalid token''\<rparr>
                 | Some user \<Rightarrow> Next user)))"

subsection \<open>The server: \<^verbatim>\<open>POST /api/emissions\<close>\<close>

text \<open>
  The fields read from the request body; an absent field is \<open>None\<close> and is bound as
  NULL. The numeric fields carry numbers: other JSON values are outside the model.
\<close>

record emission_body =
  b_sensor_id :: "string option"
  b_co2_value :: "rat option"
  b_pm25_value :: "rat option"
  b_temperature :: "rat option"
  b_humidity :: "rat option"

definition request_emission_id :: "nat \<Rightarrow> rat \<Rightarrow> string" where
  "request_emission_id date_now math_random =
     ''EM_'' @ show_nat date_now @ ''_'' @ show_nat (nat \<lfloor>math_random * 1000\<rfloor>)"

definition record_emission ::
  "env \<Rightarrow> nat \<Rightarrow> rat \<Rightarrow> emission_body \<Rightarrow> db \<Rightarrow> response \<times> db" where
  "record_emission ev date_now math_random b d =
     (let emission_id = request_emission_id date_now math_random
      in case insert_emission ev
             \<lparr>v_emission_id = emission_id, v_co2_value = b_co2_value b,
              v_pm25_value = b_pm25_value b, v_temperature = b_temperature b,
              v_humidity = b_humidity b, v_sensor_id = b_sensor_id b\<rparr> d of
           Inl err \<Rightarrow> (\<lparr>status = 500, json = Error_body ''Failed to record emission''\<rparr>, d)
         | Inr d' \<Rightarrow> (\<lparr>status = 201, json = Emission_recorded emission_id\<rparr>, d'))"

definition post_emissions ::
  "(string \<Rightarrow> token_user option) \<Rightarrow> env \<Rightarrow> nat \<Rightarrow> rat \<Rightarrow> string option \<Rightarrow> emission_body \<Rightarrow> db
     \<Rightarrow> response \<times> db" where
  "post_emissions verify ev date_now math_random authHeader b d =
     (case authenticateToken verify authHeader of
        Respond r \<Rightarrow> (r, d)
      | Next user \<Rightarrow> record_emission ev date_now math_random b d)"

subsection \<open>The server: \<^verbatim>\<open>GET /api/dashboard/stats\<close>\<close>

text \<open>
  The four queries. \<^verbatim>\<open>ORDER BY ed.timestamp DESC LIMIT 1\<close> is a stable sort here: the
  order SQL gives to rows of equal timestamp is not specified.
\<close>

definition user_emissions :: "int \<Rightarrow> db \<Rightarrow> emission_row list" where
  "user_emissions uid d =
     [ed. ed \<leftarrow> Emission_Data d, s \<leftarrow> Sensor d, e_sensor_id ed = sensor_id s, s_user_id s = uid]"

definition current_emission_query :: "int \<Rightarrow> db \<Rightarrow> rat list" where
  "current_emission_query uid d =
     take 1 (map co2_value (rev (sort_key timestamp (user_emissions uid d))))"

definition total_credits_query :: "int \<Rightarrow> db \<Rightarrow> rat" where
  "total_credits_query uid d =
     sum_list [credit_amount cc.
                 cc \<leftarrow> Carbon_Credit d, cem \<leftarrow> Credit_Emission_Map d,
                 credit_id cc = m_credit_id cem,
                 ed \<leftarrow> Emission_Data d, m_emission_id cem = emission_id ed,
                 s \<leftarrow> Sensor d, e_sensor_id ed = sensor_id s, s_user_id s = uid]"

definition active_sensors_query :: "int \<Rightarrow> db \<Rightarrow> nat" where
  "active_sensors_query uid d =
     length (filter (\<lambda>s. s_user_id s = uid \<and> s_status s = Some ''active'') (Sensor d))"

definition unread_alerts_query :: "int \<Rightarrow> db \<Rightarrow> nat" where
  "unread_alerts_query uid d =
     length (filter (\<lambda>a. a_user_id a = uid \<and> is_read a = Some False) (Alert d))"

text \<open>\<^verbatim>\<open>x?.field || 0\<close> on a number or \<^verbatim>\<open>undefined\<close>.\<close>

definition or_zero :: "'a::zero option \<Rightarrow> 'a" where
  "or_zero x = (case x of None \<Rightarrow> 0 | Some v \<Rightarrow> (if v = 0 then 0 else v))"

definition dashboard_stats :: "int \<Rightarrow> db \<Rightarrow> response" where
  "dashboard_stats uid d =
     \<lparr>status = 200,
      json = Stats
        (or_zero (case current_emission_query uid d of [] \<Rightarrow> None | v # _ \<Rightarrow> Some v))
        (or_zero (Some (total_credits_query uid d)))
        (or_zero (Some (active_sensors_query uid d)))
        (or_zero (Some (unread_alerts_query uid d)))\<rparr>"

definition get_dashboard_stats ::
  "(string \<Rightarrow> token_user option) \<Rightarrow> string option \<Rightarrow> db \<Rightarrow> response" where
  "get_dashboard_stats verify authHeader d =
     (case authenticateToken verify authHeader of
        Respond r \<Rightarrow> r
      | Next user \<Rightarrow> dashboard_stats (tu_user_id user) d)"

section \<open>Properties of the stored data\<close>

subsection \<open>Well-formed databases\<close>

text \<open>
  \<open>linked_once\<close>: every credit has exactly one row of \<^verbatim>\<open>Credit_Emission_Map\<close>, with the
  default weight and inclusion flag, and that row names a stored reading. \<open>wf\<close> adds the
  key and reference constraints of the schema and what the trigger guarantees of the
  rows it leaves behind: credits computed against the limit 1000, no reading above it,
  no alert and no alert reference.
\<close>

definition linked_once :: "db \<Rightarrow> bool" where
  "linked_once d \<longleftrightarrow>
     (\<forall>c\<in>set (Carbon_Credit d).
        \<exists>m. filter (\<lambda>m. m_credit_id m = credit_id c) (Credit_Emission_Map d) = [m]
          \<and> weight_factor m = Some 1 \<and> included_flag m = Some True
          \<and> m_emission_id m \<in> set (map emission_id (Emission_Data d)))"

definition wf :: "db \<Rightarrow> bool" where
  "wf d \<longleftrightarrow>
     distinct (map sensor_id (Sensor d))
   \<and> distinct (map emission_id (Emission_Data d))
   \<and> distinct (map credit_id (Carbon_Credit d))
   \<and> distinct (map alert_id (Alert d))
   \<and> (\<forall>e\<in>set (Emission_Data d). e_sensor_id e \<in> set (map sensor_id (Sensor d)))
   \<and> (\<forall>m\<in>set (Credit_Emission_Map d). m_credit_id m \<in> set (map credit_id (Carbon_Credit d)))
   \<and> linked_once d
   \<and> (\<forall>a\<in>set (Alert d). a_user_id a \<in> set (map s_user_id (Sensor d)))
   \<and> (\<forall>c\<in>set (Carbon_Credit d). allowed_limit c = 1000 \<and> emission_value c \<le> 1000
          \<and> credit_amount c = (1000 - emission_value c) / 1000
          \<and> c_status c = determine_status (credit_amount c))
   \<and> Alert d = []
   \<and> (\<forall>e\<in>set (Emission_Data d). co2_value e \<le> 1000 \<and> e_alert_id e = None)"



subsection \<open>Sample data\<close>

text \<open>
  The first user, sensor and readings of the schema's sample data, inserted through the
  statements of the model.
\<close>

definition demo_env :: "nat \<Rightarrow> rat \<Rightarrow> env" where
  "demo_env t r =
     \<lparr>now = t, rand_alert = r, rand_credit = r, show_float = (\<lambda>q. show_nat (nat \<lfloor>q\<rfloor>))\<rparr>"

definition demo_sensor :: sensor_row where
  "demo_sensor =
     \<lparr>sensor_id = ''SENSOR_001'', sensor_type = ''CO2'', s_status = Some ''active'',
      location = Some ''Main Chimney'', s_user_id = 1\<rparr>"

definition demo_values :: "string \<Rightarrow> rat \<Rightarrow> emission_values" where
  "demo_values k co2 =
     \<lparr>v_emission_id = k, v_co2_value = Some co2, v_pm25_value = None,
      v_temperature = Some 28.5, v_humidity = Some 65, v_sensor_id = Some ''SENSOR_001''\<rparr>"

definition demo_setup :: "statement list" where
  "demo_setup = [Insert_user ''demo@industry.com'', Insert_sensor demo_sensor]"

definition demo_history :: "statement list" where
  "demo_history =
     demo_setup @
     [Insert_emission (demo_env 20240601080000 0.5) (demo_values ''EM_2024060101'' 850),
      Insert_emission (demo_env 20240602080000 0.25) (demo_values ''EM_2024060201'' 1050)]"

text \<open>A verifier that accepts one token, for the first user of the sample data.\<close>

definition demo_verify :: "string \<Rightarrow> token_user option" where
  "demo_verify t =
     (if t = ''good'' then Some \<lparr>tu_user_id = 1, tu_email = ''demo@industry.com'', tu_role = ''admin''\<rparr>
      else None)"

definition demo_body :: "string option \<Rightarrow> rat option \<Rightarrow> emission_body" where
  "demo_body sid co2 =
     \<lparr>b_sensor_id = sid, b_co2_value = co2, b_pm25_value = None,
      b_temperature = Some 28.5, b_humidity = Some 65\<rparr>"

lemmas model_defs =
  run_def step_def empty_db_def insert_user_def insert_sensor_def auto_increment_def
  insert_emission_def after_emission_insert_def v_threshold_def
  check_emission_threshold_def check_emission_threshold_in_trigger_def
  select_emission_details_def insert_alert_def new_alert_def
  new_alert_id_def update_alert_id_def alert_severity_def
  calculate_carbon_credits_def select_co2_value_def insert_credit_def insert_map_def
  new_credit_id_def curdate_def compute_credit_amount_def determine_status_def
  show_nat.simps digit_char_def Let_def
  demo_env_def demo_sensor_def demo_values_def demo_setup_def demo_history_def

subsection \<open>What a successful statement has done\<close>

lemma filter_fresh_key:
  assumes "k \<notin> set (map f xs)"
  shows "filter (\<lambda>x. f x = k) xs = []"
proof -
  have "\<forall>x\<in>set xs. f x \<noteq> k" using assms by (metis image_eqI set_map)
  then show ?thesis by (simp add: filter_empty_conv)
qed

lemma select_details_appended:
  assumes "emission_id NEW \<notin> set (map emission_id (Emission_Data d))"
  shows "select_emission_details (emission_id NEW) (d\<lparr>Emission_Data := Emission_Data d @ [NEW]\<rparr>)
       = map (\<lambda>s. (co2_value NEW, e_sensor_id NEW, s_user_id s))
             (filter (\<lambda>s. e_sensor_id NEW = sensor_id s) (Sensor d))"
  by (simp add: select_emission_details_def filter_fresh_key [OF assms])

lemma select_co2_appended:
  assumes "k \<notin> set (map emission_id es)" and "emission_id NEW = k" and "Emission_Data d = es @ [NEW]"
  shows "select_co2_value k d = [co2_value NEW]"
  using assms(2,3) by (simp add: select_co2_value_def filter_fresh_key [OF assms(1)])

text \<open>What a successful call of each procedure has done.\<close>

lemma calculate_carbon_credits_Inr:
  assumes "calculate_carbon_credits ev p L d = Inr (d', amt, st)"
  shows "\<exists>e. select_co2_value p d = [e]
           \<and> amt = compute_credit_amount L e \<and> st = determine_status amt
           \<and> new_credit_id ev \<notin> set (map credit_id (Carbon_Credit d))
           \<and> d' = d\<lparr>Carbon_Credit := Carbon_Credit d @ [new_credit ev L e],
                    Credit_Emission_Map := Credit_Emission_Map d @ [new_map ev p]\<rparr>"
proof (cases "select_co2_value p d")
  case Nil
  with assms show ?thesis by (simp add: calculate_carbon_credits_def)
next
  case (Cons e rest)
  with assms have rest: "rest = []"
    by (cases rest) (simp_all add: calculate_carbon_credits_def)
  from assms Cons rest show ?thesis
    by (auto simp: calculate_carbon_credits_def Let_def insert_credit_def insert_map_def
          new_credit_def new_map_def split: if_splits)
qed

lemma check_emission_threshold_Inr:
  assumes "check_emission_threshold ev p t d = Inr d'"
  shows "(select_emission_details p d = [] \<and> d' = d)
       \<or> (\<exists>v sid uid. select_emission_details p d = [(v, sid, uid)] \<and>
            (if v > t
             then new_alert_id ev \<notin> set (map alert_id (Alert d))
                  \<and> d' = update_alert_id p (new_alert_id ev) (d\<lparr>Alert := Alert d @ [new_alert ev v t uid]\<rparr>)
             else d' = d))"
proof (cases "select_emission_details p d")
  case Nil
  with assms show ?thesis by (simp add: check_emission_threshold_def)
next
  case (Cons x rest)
  with assms have rest: "rest = []"
    by (cases rest) (simp_all add: check_emission_threshold_def)
  obtain v sid uid where x: "x = (v, sid, uid)" by (cases x)
  from assms Cons rest x show ?thesis
    by (auto simp: check_emission_threshold_def insert_alert_def new_alert_def split: if_splits)
qed


text \<open>Inside the trigger the procedure succeeds only where it writes nothing.\<close>

lemma check_emission_threshold_in_trigger_Inr:
  assumes "check_emission_threshold_in_trigger ev p t d = Inr d'"
  shows "d' = d
       \<and> (select_emission_details p d = []
          \<or> (\<exists>v sid uid. select_emission_details p d = [(v, sid, uid)] \<and> v \<le> t))"
proof (cases "select_emission_details p d")
  case Nil
  with assms show ?thesis by (simp add: check_emission_threshold_in_trigger_def)
next
  case (Cons x rest)
  with assms have rest: "rest = []"
    by (cases rest) (simp_all add: check_emission_threshold_in_trigger_def)
  obtain v sid uid where x: "x = (v, sid, uid)" by (cases x)
  from assms Cons rest x show ?thesis
    by (auto simp: check_emission_threshold_in_trigger_def split: if_splits sum.splits)
qed

lemma check_emission_threshold_in_trigger_above:
  assumes "select_emission_details p d = [(v, sid, uid)]" and "v > t"
  shows "check_emission_threshold_in_trigger ev p t d
           = (case check_emission_threshold ev p t d of
                Inl err \<Rightarrow> Inl err
              | Inr d' \<Rightarrow> Inl Cant_update_used_table)"
  using assms
  by (simp add: check_emission_threshold_in_trigger_def check_emission_threshold_def
        split: sum.splits)

lemma check_emission_threshold_in_trigger_below:
  assumes "select_emission_details p d = [(v, sid, uid)]" and "v \<le> t"
  shows "check_emission_threshold_in_trigger ev p t d = check_emission_threshold ev p t d"
  using assms
  by (simp add: check_emission_threshold_in_trigger_def check_emission_threshold_def)

lemma insert_emission_Inr:
  assumes "insert_emission ev vals d = Inr d'"
  shows "\<exists>co2 sid. v_co2_value vals = Some co2 \<and> v_sensor_id vals = Some sid
           \<and> co2 \<le> 1000
           \<and> v_emission_id vals \<notin> set (map emission_id (Emission_Data d))
           \<and> sid \<in> set (map sensor_id (Sensor d))
           \<and> new_credit_id ev \<notin> set (map credit_id (Carbon_Credit d))
           \<and> d' = d\<lparr>Emission_Data := Emission_Data d @ [new_reading ev vals co2 sid],
                    Carbon_Credit := Carbon_Credit d @ [new_credit ev 1000 co2],
                    Credit_Emission_Map :=
                      Credit_Emission_Map d @ [new_map ev (v_emission_id vals)]\<rparr>"
proof -
  from assms obtain co2 sid where
    co2: "v_co2_value vals = Some co2" and sid: "v_sensor_id vals = Some sid"
    by (cases "v_co2_value vals"; cases "v_sensor_id vals") (simp_all add: insert_emission_def)
  define NEW where "NEW = new_reading ev vals co2 sid"
  define d0 where "d0 = d\<lparr>Emission_Data := Emission_Data d @ [NEW]\<rparr>"
  have NEW_id: "emission_id NEW = v_emission_id vals" and NEW_co2: "co2_value NEW = co2"
    and NEW_sid: "e_sensor_id NEW = sid"
    by (simp_all add: NEW_def new_reading_def)
  from assms co2 sid have fresh: "v_emission_id vals \<notin> set (map emission_id (Emission_Data d))"
    and known: "sid \<in> set (map sensor_id (Sensor d))"
    and trig: "after_emission_insert ev NEW d0 = Inr d'"
    by (simp_all add: insert_emission_def Let_def NEW_def d0_def new_reading_def split: if_splits)
  from trig obtain d1 where
    chk: "check_emission_threshold_in_trigger ev (v_emission_id vals) 1000 d0 = Inr d1" and
    rest: "if co2 \<le> 1000
           then (\<exists>amt st. calculate_carbon_credits ev (v_emission_id vals) 1000 d1 = Inr (d', amt, st))
           else d' = d1"
    by (auto simp: after_emission_insert_def v_threshold_def NEW_id NEW_co2
          split: sum.splits if_splits)
  have sel: "select_emission_details (v_emission_id vals) d0
       = map (\<lambda>s. (co2, sid, s_user_id s)) (filter (\<lambda>s. sid = sensor_id s) (Sensor d))"
    using select_details_appended [of NEW d] fresh by (simp add: NEW_id NEW_co2 NEW_sid d0_def)
  from known have nonempty: "filter (\<lambda>s. sid = sensor_id s) (Sensor d) \<noteq> []"
    by (auto simp: filter_empty_conv)
  from check_emission_threshold_in_trigger_Inr [OF chk] sel nonempty obtain v sid' uid where
    d1: "d1 = d0" and
    one: "map (\<lambda>s. (co2, sid, s_user_id s)) (filter (\<lambda>s. sid = sensor_id s) (Sensor d))
            = [(v, sid', uid)]" and
    below: "v \<le> 1000"
    by auto
  from one have "v = co2"
    by (cases "filter (\<lambda>s. sid = sensor_id s) (Sensor d)") auto
  with below have le: "co2 \<le> 1000" by simp
  with rest obtain amt st where
    "calculate_carbon_credits ev (v_emission_id vals) 1000 d0 = Inr (d', amt, st)"
    by (auto simp: d1)
  from calculate_carbon_credits_Inr [OF this] obtain e where
    e: "select_co2_value (v_emission_id vals) d0 = [e]" and
    cfresh: "new_credit_id ev \<notin> set (map credit_id (Carbon_Credit d0))" and
    d': "d' = d0\<lparr>Carbon_Credit := Carbon_Credit d0 @ [new_credit ev 1000 e],
                 Credit_Emission_Map := Credit_Emission_Map d0 @ [new_map ev (v_emission_id vals)]\<rparr>"
    by blast
  have "select_co2_value (v_emission_id vals) d0 = [co2_value NEW]"
    by (rule select_co2_appended [OF fresh NEW_id]) (simp add: d0_def)
  with e have "e = co2" by (simp add: NEW_co2)
  with d' cfresh co2 sid fresh known le show ?thesis
    by (simp add: d0_def NEW_def)
qed

lemma insert_emission_cases [consumes 1, case_names credit]:
  assumes "insert_emission ev vals d = Inr d'"
  obtains (credit) co2 sid where
      "v_co2_value vals = Some co2" "v_sensor_id vals = Some sid" "co2 \<le> 1000"
      "v_emission_id vals \<notin> set (map emission_id (Emission_Data d))"
      "sid \<in> set (map sensor_id (Sensor d))"
      "new_credit_id ev \<notin> set (map credit_id (Carbon_Credit d))"
      "d' = d\<lparr>Emission_Data := Emission_Data d @ [new_reading ev vals co2 sid],
               Carbon_Credit := Carbon_Credit d @ [new_credit ev 1000 co2],
               Credit_Emission_Map := Credit_Emission_Map d @ [new_map ev (v_emission_id vals)]\<rparr>"
  using insert_emission_Inr [OF assms] by blast

text \<open>
  An insertion goes through when its values are present, the value does not exceed the
  threshold, the reading's identifier is new, its sensor is stored once, and the
  identifiers the trigger generates are unused.
\<close>

lemma insert_emission_succeeds:
  assumes vals: "v_co2_value vals = Some co2" "v_sensor_id vals = Some sid"
    and le: "co2 \<le> 1000"
    and fresh: "v_emission_id vals \<notin> set (map emission_id (Emission_Data d))"
    and sensor: "filter (\<lambda>s. sid = sensor_id s) (Sensor d) = [s]"
    and credit: "new_credit_id ev \<notin> set (map credit_id (Carbon_Credit d))"
      "''MAP_'' @ new_credit_id ev \<notin> set (map map_id (Credit_Emission_Map d))"
  shows "\<exists>d'. insert_emission ev vals d = Inr d'"
proof -
  define NEW where "NEW = new_reading ev vals co2 sid"
  define d0 where "d0 = d\<lparr>Emission_Data := Emission_Data d @ [NEW]\<rparr>"
  have NEW: "emission_id NEW = v_emission_id vals" "co2_value NEW = co2" "e_sensor_id NEW = sid"
    by (simp_all add: NEW_def new_reading_def)
  have "s \<in> set (filter (\<lambda>s. sid = sensor_id s) (Sensor d))" by (simp add: sensor)
  then have known: "sid \<in> set (map sensor_id (Sensor d))" by auto
  have ins: "insert_emission ev vals d = after_emission_insert ev NEW d0"
    using vals fresh known by (simp add: insert_emission_def NEW_def d0_def new_reading_def Let_def)
  have sel: "select_emission_details (v_emission_id vals) d0 = [(co2, sid, s_user_id s)]"
    using select_details_appended [of NEW d] fresh by (simp add: NEW d0_def sensor)
  from le have chk: "check_emission_threshold_in_trigger ev (v_emission_id vals) 1000 d0 = Inr d0"
    by (simp add: check_emission_threshold_in_trigger_def sel)
  have co2: "select_co2_value (v_emission_id vals) d0 = [co2]"
    using select_co2_appended [OF fresh NEW(1), of d0] by (simp add: d0_def NEW)
  have "\<exists>d'. calculate_carbon_credits ev (v_emission_id vals) 1000 d0 = Inr d'"
    unfolding calculate_carbon_credits_def co2 using credit
    by (simp add: insert_credit_def insert_map_def Let_def d0_def NEW)
  with le chk show ?thesis
    by (auto simp: ins after_emission_insert_def v_threshold_def NEW)
qed

text \<open>
  An insertion of a value above the threshold fails: an insertion that succeeds has a
  value of at most 1000.
\<close>

lemma insert_emission_above_threshold:
  assumes "v_co2_value vals = Some co2" and "co2 > 1000"
  shows "\<exists>err. insert_emission ev vals d = Inl err"
proof (cases "insert_emission ev vals d")
  case (Inl err)
  then show ?thesis by blast
next
  case (Inr d')
  from insert_emission_Inr [OF this] assms show ?thesis by auto
qed

subsection \<open>Every history yields a well-formed database\<close>

lemma wf_empty: "wf empty_db"
  by (simp add: wf_def linked_once_def empty_db_def)

lemma wf_insert_user:
  assumes "wf d" and "insert_user e d = Inr d'"
  shows "wf d'"
  using assms by (auto simp: wf_def linked_once_def insert_user_def split: if_splits)

lemma wf_insert_sensor:
  assumes "wf d" and "insert_sensor s d = Inr d'"
  shows "wf d'"
  using assms by (auto simp: wf_def linked_once_def insert_sensor_def split: if_splits)

lemma linked_once_credit:
  assumes l: "linked_once d"
    and fk: "\<forall>m\<in>set (Credit_Emission_Map d). m_credit_id m \<in> set (map credit_id (Carbon_Credit d))"
    and fresh: "new_credit_id ev \<notin> set (map credit_id (Carbon_Credit d))"
  shows "linked_once (d\<lparr>Emission_Data := Emission_Data d @ [r],
            Carbon_Credit := Carbon_Credit d @ [new_credit ev L e],
            Credit_Emission_Map := Credit_Emission_Map d @ [new_map ev (emission_id r)]\<rparr>)"
proof -
  have old: "filter (\<lambda>m. m_credit_id m = new_credit_id ev) (Credit_Emission_Map d) = []"
  proof -
    have "\<forall>m\<in>set (Credit_Emission_Map d). m_credit_id m \<noteq> new_credit_id ev"
      using fk fresh by metis
    then show ?thesis by (simp add: filter_empty_conv)
  qed
  have other: "credit_id c \<noteq> new_credit_id ev" if "c \<in> set (Carbon_Credit d)" for c
    using that fresh by (metis image_eqI set_map)
  show ?thesis
    unfolding linked_once_def
  proof
    fix c
    assume "c \<in> set (Carbon_Credit (d\<lparr>Emission_Data := Emission_Data d @ [r],
            Carbon_Credit := Carbon_Credit d @ [new_credit ev L e],
            Credit_Emission_Map := Credit_Emission_Map d @ [new_map ev (emission_id r)]\<rparr>))"
    then consider "c \<in> set (Carbon_Credit d)" | "c = new_credit ev L e" by auto
    then show "\<exists>m. filter (\<lambda>m. m_credit_id m = credit_id c)
             (Credit_Emission_Map (d\<lparr>Emission_Data := Emission_Data d @ [r],
            Carbon_Credit := Carbon_Credit d @ [new_credit ev L e],
            Credit_Emission_Map := Credit_Emission_Map d @ [new_map ev (emission_id r)]\<rparr>)) = [m]
          \<and> weight_factor m = Some 1 \<and> included_flag m = Some True
          \<and> m_emission_id m \<in> set (map emission_id (Emission_Data (d\<lparr>Emission_Data := Emission_Data d @ [r],
            Carbon_Credit := Carbon_Credit d @ [new_credit ev L e],
            Credit_Emission_Map := Credit_Emission_Map d @ [new_map ev (emission_id r)]\<rparr>)))"
    proof cases
      case 1
      with l obtain m where "filter (\<lambda>m. m_credit_id m = credit_id c) (Credit_Emission_Map d) = [m]"
        "weight_factor m = Some 1" "included_flag m = Some True"
        "m_emission_id m \<in> set (map emission_id (Emission_Data d))"
        unfolding linked_once_def by blast
      with other [OF 1] show ?thesis by (simp add: new_map_def)
    next
      case 2
      with old show ?thesis by (simp add: new_map_def new_credit_def)
    qed
  qed
qed

lemma wf_insert_emission:
  assumes w: "wf d" and ins: "insert_emission ev vals d = Inr d'"
  shows "wf d'"
  using ins
proof (cases rule: insert_emission_cases)
  case (credit co2 sid)
  note fresh = credit(4) and known = credit(5) and cfresh = credit(6)
  from credit(7) have
    d': "d' = d\<lparr>Emission_Data := Emission_Data d @ [new_reading ev vals co2 sid],
                 Carbon_Credit := Carbon_Credit d @ [new_credit ev 1000 co2],
                 Credit_Emission_Map :=
                   Credit_Emission_Map d @ [new_map ev (emission_id (new_reading ev vals co2 sid))]\<rparr>"
    by (simp add: new_reading_def)
  from w have fk: "\<forall>m\<in>set (Credit_Emission_Map d). m_credit_id m \<in> set (map credit_id (Carbon_Credit d))"
    and l: "linked_once d" by (simp_all add: wf_def)
  have "linked_once d'" unfolding d' by (rule linked_once_credit [OF l fk cfresh])
  moreover have "distinct (map sensor_id (Sensor d'))" using w by (simp add: d' wf_def)
  moreover have "distinct (map emission_id (Emission_Data d'))"
    using w fresh by (simp add: d' wf_def new_reading_def)
  moreover have "distinct (map credit_id (Carbon_Credit d'))"
    using w cfresh by (simp add: d' wf_def new_credit_def)
  moreover have "distinct (map alert_id (Alert d'))"
    using w by (simp add: d' wf_def)
  moreover have "\<forall>e\<in>set (Emission_Data d'). e_sensor_id e \<in> set (map sensor_id (Sensor d'))"
    using w known by (auto simp: d' wf_def new_reading_def)
  moreover have "\<forall>m\<in>set (Credit_Emission_Map d'). m_credit_id m \<in> set (map credit_id (Carbon_Credit d'))"
    using fk by (auto simp: d' new_map_def new_credit_def)
  moreover have "\<forall>a\<in>set (Alert d'). a_user_id a \<in> set (map s_user_id (Sensor d'))"
    using w by (simp add: d' wf_def)
  moreover have "\<forall>c\<in>set (Carbon_Credit d'). allowed_limit c = 1000 \<and> emission_value c \<le> 1000
        \<and> credit_amount c = (1000 - emission_value c) / 1000
        \<and> c_status c = determine_status (credit_amount c)"
    using w credit(3) by (auto simp: d' wf_def new_credit_def compute_credit_amount_def)
  moreover have "Alert d' = []" using w by (simp add: d' wf_def)
  moreover have "\<forall>e\<in>set (Emission_Data d'). co2_value e \<le> 1000 \<and> e_alert_id e = None"
    using w credit(3) by (auto simp: d' wf_def new_reading_def)
  ultimately show ?thesis unfolding wf_def by blast
qed

lemma wf_step: "wf d \<Longrightarrow> wf (step d st)"
  by (cases st)
     (auto simp: step_def split: sum.splits
        intro: wf_insert_user wf_insert_sensor wf_insert_emission)

lemma wf_foldl: "wf d \<Longrightarrow> wf (foldl step d sts)"
  by (induction sts arbitrary: d) (simp_all add: wf_step)

lemma wf_run: "wf (run sts)"
  unfolding run_def by (rule wf_foldl [OF wf_empty])

subsection \<open>The sample history, evaluated\<close>

lemma demo_setup_run:
  "run demo_setup =
     \<lparr>User = [\<lparr>user_id = 1, email = ''demo@industry.com''\<rparr>], Sensor = [demo_sensor],
      Emission_Data = [], Carbon_Credit = [], Credit_Emission_Map = [], Alert = []\<rparr>"
  by (simp add: model_defs)

text \<open>
  The second reading of the sample history has the value 1050: its insertion fails and
  leaves the database of the first.
\<close>

lemma demo_history_run:
  "run demo_history =
     \<lparr>User = [\<lparr>user_id = 1, email = ''demo@industry.com''\<rparr>],
      Sensor = [demo_sensor],
      Emission_Data =
        [\<lparr>emission_id = ''EM_2024060101'', timestamp = 20240601080000, co2_value = 850,
          pm25_value = None, temperature = Some 28.5, humidity = Some 65,
          e_sensor_id = ''SENSOR_001'', e_alert_id = None\<rparr>],
      Carbon_Credit =
        [\<lparr>credit_id = ''CC_20240601_5000'', report_id = None, calculated_date = 20240601,
          emission_value = 850, allowed_limit = 1000, credit_amount = 3 / 20,
          c_status = earned\<rparr>],
      Credit_Emission_Map =
        [\<lparr>map_id = ''MAP_CC_20240601_5000'', m_credit_id = ''CC_20240601_5000'',
          m_emission_id = ''EM_2024060101'', weight_factor = Some 1, included_flag = Some True\<rparr>],
      Alert = []\<rparr>"
  by (simp add: model_defs)

section \<open>The claims\<close>

text \<open>
  C1. For every emission value \<open>e\<close> and allowed limit \<open>L\<close>, the credit calculation computes
  the amount \<open>(L - e) / 1000\<close>; the status is \<open>earned\<close> exactly when the amount is positive,
  \<open>deficit\<close> exactly when it is negative and \<open>neutral\<close> exactly when it is zero. A call of
  \<^verbatim>\<open>calculate_carbon_credits\<close> that finds the reading returns these two values and
  appends one \<^verbatim>\<open>Carbon_Credit\<close> row holding them, with \<open>e\<close> as emission value and \<open>L\<close> as
  allowed limit; and the call succeeds whenever the generated identifiers are unused.
\<close>

theorem calculate_carbon_credits_spec:
  "compute_credit_amount L e = (L - e) / 1000
   \<and> (determine_status (compute_credit_amount L e) = earned \<longleftrightarrow> compute_credit_amount L e > 0)
   \<and> (determine_status (compute_credit_amount L e) = deficit \<longleftrightarrow> compute_credit_amount L e < 0)
   \<and> (determine_status (compute_credit_amount L e) = neutral \<longleftrightarrow> compute_credit_amount L e = 0)
   \<and> (e > L \<longrightarrow> compute_credit_amount L e < 0
            \<and> determine_status (compute_credit_amount L e) = deficit)
   \<and> (\<forall>ev p d d' amt st.
         select_co2_value p d = [e] \<and> calculate_carbon_credits ev p L d = Inr (d', amt, st) \<longrightarrow>
           amt = (L - e) / 1000 \<and> st = determine_status amt
           \<and> Carbon_Credit d' = Carbon_Credit d @
               [\<lparr>credit_id = new_credit_id ev, report_id = None, calculated_date = curdate ev,
                 emission_value = e, allowed_limit = L, credit_amount = amt, c_status = st\<rparr>])
   \<and> (\<forall>ev p d.
         select_co2_value p d = [e]
         \<and> new_credit_id ev \<notin> set (map credit_id (Carbon_Credit d))
         \<and> ''MAP_'' @ new_credit_id ev \<notin> set (map map_id (Credit_Emission_Map d)) \<longrightarrow>
           (\<exists>d'. calculate_carbon_credits ev p L d
                   = Inr (d', (L - e) / 1000, determine_status ((L - e) / 1000))))"
proof -
  have amount: "compute_credit_amount L e = (L - e) / 1000"
    by (simp add: compute_credit_amount_def)
  have status:
    "(determine_status x = earned \<longleftrightarrow> x > 0)
     \<and> (determine_status x = deficit \<longleftrightarrow> x < 0)
     \<and> (determine_status x = neutral \<longleftrightarrow> x = 0)" for x :: rat
    by (auto simp: determine_status_def)
  have over: "e > L \<longrightarrow> compute_credit_amount L e < 0
            \<and> determine_status (compute_credit_amount L e) = deficit"
    by (simp add: compute_credit_amount_def determine_status_def)
  have stored: "amt = (L - e) / 1000 \<and> st = determine_status amt
           \<and> Carbon_Credit d' = Carbon_Credit d @
               [\<lparr>credit_id = new_credit_id ev, report_id = None, calculated_date = curdate ev,
                 emission_value = e, allowed_limit = L, credit_amount = amt, c_status = st\<rparr>]"
    if "select_co2_value p d = [e]" "calculate_carbon_credits ev p L d = Inr (d', amt, st)"
    for ev p d d' amt st
  proof -
    from calculate_carbon_credits_Inr [OF that(2)] that(1) have
      amt: "amt = compute_credit_amount L e" and st: "st = determine_status amt" and
      d': "d' = d\<lparr>Carbon_Credit := Carbon_Credit d @ [new_credit ev L e],
               Credit_Emission_Map := Credit_Emission_Map d @ [new_map ev p]\<rparr>"
      by auto
    have "Carbon_Credit d' = Carbon_Credit d @ [new_credit ev L e]"
      by (simp add: d')
    moreover have "new_credit ev L e =
        \<lparr>credit_id = new_credit_id ev, report_id = None, calculated_date = curdate ev,
         emission_value = e, allowed_limit = L, credit_amount = amt, c_status = st\<rparr>"
      unfolding new_credit_def st amt by (rule refl)
    ultimately show ?thesis
      using amt st amount by (simp only: simp_thms)
  qed
  have succeeds: "\<exists>d'. calculate_carbon_credits ev p L d
                   = Inr (d', (L - e) / 1000, determine_status ((L - e) / 1000))"
    if sel: "select_co2_value p d = [e]"
      and c: "new_credit_id ev \<notin> set (map credit_id (Carbon_Credit d))"
      and m: "''MAP_'' @ new_credit_id ev \<notin> set (map map_id (Credit_Emission_Map d))"
    for ev p d
  proof -
    from sel have "filter (\<lambda>r. emission_id r = p) (Emission_Data d) \<noteq> []"
      by (auto simp: select_co2_value_def)
    then obtain r where "r \<in> set (Emission_Data d)" "emission_id r = p"
      by (auto simp: filter_empty_conv)
    then have "p \<in> set (map emission_id (Emission_Data d))" by auto
    with sel c m show ?thesis
      by (simp add: calculate_carbon_credits_def insert_credit_def insert_map_def
            compute_credit_amount_def Let_def)
  qed
  from amount status [of "compute_credit_amount L e"] over stored succeeds
  show ?thesis by blast
qed

theorem calculate_carbon_credits_spec_witness:
  "select_co2_value ''EM_2024060101'' (run demo_history) = [850]
   \<and> (\<exists>d'. calculate_carbon_credits (demo_env 20240603090000 0.75) ''EM_2024060101'' 800
              (run demo_history) = Inr (d', - 1 / 20, deficit))"
proof -
  have sel: "select_co2_value ''EM_2024060101'' (run demo_history) = [850]"
    by (simp add: demo_history_run select_co2_value_def)
  have fresh: "new_credit_id (demo_env 20240603090000 0.75)
                 \<notin> set (map credit_id (Carbon_Credit (run demo_history)))"
    "''MAP_'' @ new_credit_id (demo_env 20240603090000 0.75)
                 \<notin> set (map map_id (Credit_Emission_Map (run demo_history)))"
    by (simp_all add: demo_history_run new_credit_id_def curdate_def demo_env_def
          show_nat.simps digit_char_def)
  from calculate_carbon_credits_spec [of 800 850] have
    a: "compute_credit_amount 800 850 = (800 - 850) / 1000" and
    b: "850 > (800::rat) \<longrightarrow> determine_status (compute_credit_amount 800 850) = deficit"
    by blast+
  have "determine_status ((800 - 850) / 1000) = deficit"
    using a b by simp
  moreover have "\<exists>d'. calculate_carbon_credits (demo_env 20240603090000 0.75) ''EM_2024060101'' 800
              (run demo_history) = Inr (d', (800 - 850) / 1000, determine_status ((800 - 850) / 1000))"
    using calculate_carbon_credits_spec [of 800 850] sel fresh by blast
  ultimately show ?thesis using sel by simp
qed

text \<open>
  C2. For every emission value \<open>v\<close> and threshold \<open>t\<close>, \<^verbatim>\<open>check_emission_threshold\<close> writes
  nothing when \<open>v \<le> t\<close>. When \<open>v > t\<close> it appends exactly one alert, whose severity is
  \<open>critical\<close> if \<open>v > 1.2 t\<close>, \<open>high\<close> if \<open>1.1 t < v \<le> 1.2 t\<close> and \<open>medium\<close> if
  \<open>t < v \<le> 1.1 t\<close>: a value equal to \<open>t\<close> raises no alert, a value equal to \<open>1.1 t\<close> or
  \<open>1.2 t\<close> is graded in the lower band.
\<close>

theorem check_emission_threshold_spec:
  "(v > 1.2 * t \<longrightarrow> alert_severity v t = critical)
   \<and> (1.1 * t < v \<and> v \<le> 1.2 * t \<longrightarrow> alert_severity v t = high)
   \<and> (t < v \<and> v \<le> 1.1 * t \<longrightarrow> alert_severity v t = medium)
   \<and> (t < v \<and> v = 1.2 * t \<longrightarrow> alert_severity v t = high)
   \<and> (t < v \<and> v = 1.1 * t \<longrightarrow> alert_severity v t = medium)
   \<and> (\<forall>ev p d sid uid.
         select_emission_details p d = [(v, sid, uid)] \<and> v \<le> t \<longrightarrow>
           check_emission_threshold ev p t d = Inr d)
   \<and> (\<forall>ev p d d' sid uid.
         select_emission_details p d = [(v, sid, uid)] \<and> v > t
         \<and> check_emission_threshold ev p t d = Inr d' \<longrightarrow>
           (\<exists>a. Alert d' = Alert d @ [a] \<and> a_severity a = Some (alert_severity v t)
                \<and> threshold_value a = t \<and> a_user_id a = uid))
   \<and> (\<forall>ev p d sid uid.
         select_emission_details p d = [(v, sid, uid)] \<and> v > t
         \<and> new_alert_id ev \<notin> set (map alert_id (Alert d))
         \<and> uid \<in> set (map user_id (User d)) \<longrightarrow>
           (\<exists>d'. check_emission_threshold ev p t d = Inr d'))"
proof -
  have bands:
    "(v > 1.2 * t \<longrightarrow> alert_severity v t = critical)
     \<and> (1.1 * t < v \<and> v \<le> 1.2 * t \<longrightarrow> alert_severity v t = high)
     \<and> (t < v \<and> v \<le> 1.1 * t \<longrightarrow> alert_severity v t = medium)"
    by (auto simp: alert_severity_def)
  have edges:
    "(t < v \<and> v = 1.2 * t \<longrightarrow> alert_severity v t = high)
     \<and> (t < v \<and> v = 1.1 * t \<longrightarrow> alert_severity v t = medium)"
    by (auto simp: alert_severity_def)
  have quiet: "check_emission_threshold ev p t d = Inr d"
    if "select_emission_details p d = [(v, sid, uid)]" "v \<le> t" for ev p d sid uid
    using that by (simp add: check_emission_threshold_def)
  have one: "\<exists>a. Alert d' = Alert d @ [a] \<and> a_severity a = Some (alert_severity v t)
                \<and> threshold_value a = t \<and> a_user_id a = uid"
    if "select_emission_details p d = [(v, sid, uid)]" "v > t"
      "check_emission_threshold ev p t d = Inr d'" for ev p d d' sid uid
    using check_emission_threshold_Inr [OF that(3)] that(1,2)
    by (auto simp: update_alert_id_def new_alert_def)
  have succeeds: "\<exists>d'. check_emission_threshold ev p t d = Inr d'"
    if "select_emission_details p d = [(v, sid, uid)]" "v > t"
      "new_alert_id ev \<notin> set (map alert_id (Alert d))" "uid \<in> set (map user_id (User d))"
    for ev p d sid uid
    using that by (simp add: check_emission_threshold_def insert_alert_def new_alert_def)
  from bands edges quiet one succeeds show ?thesis by blast
qed

theorem check_emission_threshold_spec_witness:
  "select_emission_details ''EM_2024060101'' (run demo_history) = [(850, ''SENSOR_001'', 1)]
   \<and> (\<exists>d' a. check_emission_threshold (demo_env 20240603090000 0.75) ''EM_2024060101'' 800
                (run demo_history) = Inr d'
             \<and> Alert d' = Alert (run demo_history) @ [a] \<and> a_severity a = Some medium)"
proof -
  have sel: "select_emission_details ''EM_2024060101'' (run demo_history)
               = [(850, ''SENSOR_001'', 1)]"
    by (simp add: demo_history_run select_emission_details_def demo_sensor_def)
  have fresh: "new_alert_id (demo_env 20240603090000 0.75)
                 \<notin> set (map alert_id (Alert (run demo_history)))"
    by (simp add: demo_history_run)
  have user: "1 \<in> set (map user_id (User (run demo_history)))"
    by (simp add: demo_history_run)
  note spec = check_emission_threshold_spec [where v = 850 and t = 800]
  from spec have "(800::rat) < 850 \<and> (850::rat) \<le> 1.1 * 800 \<longrightarrow> alert_severity 850 800 = medium"
    by blast
  then have sev: "alert_severity 850 800 = medium" by simp
  have above: "(850::rat) > 800" by simp
  from spec sel above fresh user obtain d' where
    d': "check_emission_threshold (demo_env 20240603090000 0.75) ''EM_2024060101'' 800
           (run demo_history) = Inr d'"
    by blast
  from spec sel above d' obtain a where
    "Alert d' = Alert (run demo_history) @ [a]" "a_severity a = Some (alert_severity 850 800)"
    by blast
  with sel d' sev show ?thesis by auto
qed

lemma demo_insert_850:
  "insert_emission (demo_env 20240601080000 0.5) (demo_values ''EM_2024060101'' 850)
     (run demo_setup) = Inr (run (demo_setup @
        [Insert_emission (demo_env 20240601080000 0.5) (demo_values ''EM_2024060101'' 850)]))"
  by (simp add: model_defs)

lemma demo_insert_1050_fails:
  "insert_emission (demo_env 20240602080000 0.25) (demo_values ''EM_2024060201'' 1050)
     (run (demo_setup @
        [Insert_emission (demo_env 20240601080000 0.5) (demo_values ''EM_2024060101'' 850)]))
   = Inl Cant_update_used_table"
  by (simp add: model_defs)

text \<open>
  C3, on the code. The schema's sample reading \<^verbatim>\<open>EM_2024060201\<close> has the value 1050. The
  trigger of its insertion writes the alert and reaches the \<^verbatim>\<open>UPDATE Emission_Data\<close> of
  \<^verbatim>\<open>check_emission_threshold\<close>, which the engine refuses inside the trigger on that
  table: the insertion fails with error 1442, and neither the reading nor the alert is
  stored. In the database of every history there is no alert and no reading above the
  threshold. The alert that the claim derives from a reading above the threshold is never
  derived.
\<close>

theorem after_emission_insert_above_threshold_fails:
  "insert_emission (demo_env 20240602080000 0.25) (demo_values ''EM_2024060201'' 1050)
     (run (demo_setup @
        [Insert_emission (demo_env 20240601080000 0.5) (demo_values ''EM_2024060101'' 850)]))
     = Inl Cant_update_used_table
   \<and> map emission_id (Emission_Data (run demo_history)) = [''EM_2024060101'']
   \<and> Alert (run demo_history) = []
   \<and> Alert (run sts) = []
   \<and> filter (\<lambda>e. co2_value e > 1000) (Emission_Data (run sts)) = []"
proof -
  from wf_run [of sts] have none: "Alert (run sts) = []"
    and low: "\<forall>e\<in>set (Emission_Data (run sts)). co2_value e \<le> 1000"
    by (simp_all add: wf_def)
  from low have "filter (\<lambda>e. co2_value e > 1000) (Emission_Data (run sts)) = []"
    by (auto simp: filter_empty_conv)
  moreover have "map emission_id (Emission_Data (run demo_history)) = [''EM_2024060101'']"
    and "Alert (run demo_history) = []"
    by (simp_all add: demo_history_run)
  ultimately show ?thesis using demo_insert_1050_fails none by simp
qed

text \<open>
  C10. Every credit written through the insertion trigger has a non-negative amount and
  the status \<open>earned\<close> or \<open>neutral\<close>: the trigger calls the calculation only for
  \<open>co2_value \<le> 1000\<close> and passes 1000 as the limit. This holds of the credit a successful
  insertion appends to any database and of every credit of every history, although the
  calculation itself yields \<open>deficit\<close> and a negative amount for a value above the limit.
\<close>

theorem trigger_credits_never_deficit:
  "(\<forall>c\<in>set (Carbon_Credit (run sts)).
      0 \<le> credit_amount c \<and> (c_status c = earned \<or> c_status c = neutral)
      \<and> allowed_limit c = 1000 \<and> emission_value c \<le> 1000)
   \<and> (\<forall>ev vals d d' c.
         insert_emission ev vals d = Inr d' \<and> Carbon_Credit d' = Carbon_Credit d @ [c] \<longrightarrow>
           0 \<le> credit_amount c \<and> (c_status c = earned \<or> c_status c = neutral))
   \<and> compute_credit_amount 1000 1050 < 0
   \<and> determine_status (compute_credit_amount 1000 1050) = deficit"
proof -
  have hist: "0 \<le> credit_amount c \<and> (c_status c = earned \<or> c_status c = neutral)
      \<and> allowed_limit c = 1000 \<and> emission_value c \<le> 1000"
    if "c \<in> set (Carbon_Credit (run sts))" for c
  proof -
    from wf_run [of sts] that have
      "allowed_limit c = 1000" "emission_value c \<le> 1000"
      "credit_amount c = (1000 - emission_value c) / 1000"
      "c_status c = determine_status (credit_amount c)"
      by (simp_all add: wf_def)
    then show ?thesis by (auto simp: determine_status_def)
  qed
  have one: "0 \<le> credit_amount c \<and> (c_status c = earned \<or> c_status c = neutral)"
    if "insert_emission ev vals d = Inr d'" "Carbon_Credit d' = Carbon_Credit d @ [c]"
    for ev vals d d' c
    using that
  proof (cases rule: insert_emission_cases)
    case (credit co2 sid)
    with that(2) have "c = new_credit ev 1000 co2" by simp
    with credit(3) show ?thesis
      by (auto simp: new_credit_def compute_credit_amount_def determine_status_def)
  qed
  have "compute_credit_amount 1000 1050 < 0"
    and "determine_status (compute_credit_amount 1000 1050) = deficit"
    by (simp_all add: compute_credit_amount_def determine_status_def)
  with hist one show ?thesis by blast
qed

theorem trigger_credits_never_deficit_witness:
  "\<exists>c. Carbon_Credit (run demo_history) = [c]
       \<and> 0 \<le> credit_amount c \<and> (c_status c = earned \<or> c_status c = neutral)
       \<and> allowed_limit c = 1000 \<and> emission_value c \<le> 1000"
proof -
  obtain c where c: "Carbon_Credit (run demo_history) = [c]"
    by (simp add: demo_history_run)
  then have "c \<in> set (Carbon_Credit (run demo_history))" by simp
  with trigger_credits_never_deficit [of demo_history] have
    "0 \<le> credit_amount c \<and> (c_status c = earned \<or> c_status c = neutral)
       \<and> allowed_limit c = 1000 \<and> emission_value c \<le> 1000"
    by blast
  with c show ?thesis by blast
qed

subsection \<open>Readings are only ever appended\<close>

lemma emission_data_step: "\<exists>rs. Emission_Data (step d st) = Emission_Data d @ rs"
proof (cases "execute st d")
  case (Inl err)
  then show ?thesis by (simp add: step_def)
next
  case (Inr d')
  then have d': "step d st = d'" by (simp add: step_def)
  show ?thesis
  proof (cases st)
    case (Insert_user e)
    with Inr have "Emission_Data d' = Emission_Data d"
      by (auto simp: insert_user_def split: if_splits)
    then show ?thesis by (simp add: d')
  next
    case (Insert_sensor s)
    with Inr have "Emission_Data d' = Emission_Data d"
      by (auto simp: insert_sensor_def split: if_splits)
    then show ?thesis by (simp add: d')
  next
    case (Insert_emission ev vals)
    with Inr have "insert_emission ev vals d = Inr d'" by simp
    then show ?thesis unfolding d' by (cases rule: insert_emission_cases) simp_all
  qed
qed

lemma emission_data_foldl: "\<exists>rs. Emission_Data (foldl step d sts) = Emission_Data d @ rs"
proof (induction sts arbitrary: d)
  case Nil
  show ?case by simp
next
  case (Cons st sts)
  from emission_data_step obtain rs where "Emission_Data (step d st) = Emission_Data d @ rs" ..
  moreover from Cons.IH obtain rs' where
    "Emission_Data (foldl step (step d st) sts) = Emission_Data (step d st) @ rs'" ..
  ultimately show ?case by simp
qed

text \<open>
  C6, on the code. The alert reference of a reading is never set. The only statement that
  sets it is the \<^verbatim>\<open>UPDATE\<close> of \<^verbatim>\<open>check_emission_threshold\<close>, and inside the trigger
  the engine refuses it: the insertion of the sample reading \<^verbatim>\<open>EM_2024060201\<close> (value
  1050), for which the classifier signals an alert, fails and changes nothing, where the
  claim has the reading stored with the identifier of a new alert. In the database of every
  history every stored reading has a NULL \<^verbatim>\<open>alert_id\<close>.
\<close>

theorem alert_reference_never_set:
  "step (run (demo_setup @
        [Insert_emission (demo_env 20240601080000 0.5) (demo_values ''EM_2024060101'' 850)]))
     (Insert_emission (demo_env 20240602080000 0.25) (demo_values ''EM_2024060201'' 1050))
     = run (demo_setup @
        [Insert_emission (demo_env 20240601080000 0.5) (demo_values ''EM_2024060101'' 850)])
   \<and> map e_alert_id (Emission_Data (run demo_history)) = [None]
   \<and> map e_alert_id (Emission_Data (run sts))
       = replicate (length (Emission_Data (run sts))) None"
proof -
  from wf_run [of sts] have "\<forall>e\<in>set (Emission_Data (run sts)). e_alert_id e = None"
    by (simp add: wf_def)
  then have "map e_alert_id (Emission_Data (run sts)) = map (\<lambda>e. None) (Emission_Data (run sts))"
    by (intro map_cong) simp_all
  then have general: "map e_alert_id (Emission_Data (run sts))
       = replicate (length (Emission_Data (run sts))) None"
    by (simp only: map_replicate_const)
  have "map e_alert_id (Emission_Data (run demo_history)) = [None]"
    by (simp add: demo_history_run)
  with general demo_insert_1050_fails show ?thesis by (simp add: step_def)
qed

lemma emission_ids_foldl:
  assumes "k \<in> set (map emission_id (Emission_Data d))"
  shows "k \<in> set (map emission_id (Emission_Data (foldl step d sts)))"
proof -
  from emission_data_foldl obtain rs where
    "Emission_Data (foldl step d sts) = Emission_Data d @ rs" ..
  with assms show ?thesis by simp
qed

lemma insert_emission_duplicate:
  assumes "v_emission_id vals \<in> set (map emission_id (Emission_Data d))"
  shows "\<exists>err. insert_emission ev vals d = Inl err"
    and "v_co2_value vals \<noteq> None \<Longrightarrow> v_sensor_id vals \<noteq> None \<Longrightarrow>
           insert_emission ev vals d = Inl Duplicate_entry"
  using assms by (auto simp: insert_emission_def split: option.splits)

text \<open>
  C5. Once a reading has been inserted under an identifier, every later insertion under
  the same identifier fails (with a duplicate-key error when its values are not NULL) and
  leaves the database as it is, whatever statements ran in between; the insertion that
  succeeded wrote at most one credit and at most one alert. So at most one credit and one
  alert are derived per reading identifier.
\<close>

theorem duplicate_emission_id_rejected:
  assumes "insert_emission ev vals d = Inr d'"
    and "v_emission_id vals' = v_emission_id vals"
  shows "length (Carbon_Credit d') \<le> length (Carbon_Credit d) + 1
       \<and> length (Alert d') \<le> length (Alert d) + 1
       \<and> (\<exists>err. insert_emission ev' vals' (foldl step d' sts) = Inl err)
       \<and> (v_co2_value vals' \<noteq> None \<and> v_sensor_id vals' \<noteq> None \<longrightarrow>
             insert_emission ev' vals' (foldl step d' sts) = Inl Duplicate_entry)
       \<and> step (foldl step d' sts) (Insert_emission ev' vals') = foldl step d' sts"
proof -
  from assms(1) have counts: "length (Carbon_Credit d') \<le> length (Carbon_Credit d) + 1
       \<and> length (Alert d') \<le> length (Alert d) + 1"
    and stored: "v_emission_id vals \<in> set (map emission_id (Emission_Data d'))"
    by (cases rule: insert_emission_cases; simp add: new_reading_def)+
  from stored assms(2) have
    "v_emission_id vals' \<in> set (map emission_id (Emission_Data (foldl step d' sts)))"
    by (simp only: emission_ids_foldl)
  note dup = insert_emission_duplicate [OF this]
  from dup(1) [of ev'] obtain err where err: "insert_emission ev' vals' (foldl step d' sts) = Inl err" ..
  then have "step (foldl step d' sts) (Insert_emission ev' vals') = foldl step d' sts"
    by (simp add: step_def)
  with counts err dup(2) [of ev'] show ?thesis by blast
qed

theorem duplicate_emission_id_rejected_witness:
  "insert_emission (demo_env 20240601080000 0.5) (demo_values ''EM_2024060101'' 850)
     (run demo_setup) = Inr (run (demo_setup @
        [Insert_emission (demo_env 20240601080000 0.5) (demo_values ''EM_2024060101'' 850)]))
   \<and> insert_emission (demo_env 20240605080000 0.125) (demo_values ''EM_2024060101'' 1250)
       (run demo_history) = Inl Duplicate_entry"
proof -
  let ?st = "Insert_emission (demo_env 20240602080000 0.25) (demo_values ''EM_2024060201'' 1050)"
  let ?d' = "run (demo_setup @
        [Insert_emission (demo_env 20240601080000 0.5) (demo_values ''EM_2024060101'' 850)])"
  have later: "foldl step ?d' [?st] = run demo_history"
    by (simp add: run_def demo_history_def)
  have same: "v_emission_id (demo_values ''EM_2024060101'' 1250)
                = v_emission_id (demo_values ''EM_2024060101'' 850)"
    and present: "v_co2_value (demo_values ''EM_2024060101'' 1250) \<noteq> None"
      "v_sensor_id (demo_values ''EM_2024060101'' 1250) \<noteq> None"
    by (simp_all add: demo_values_def)
  from duplicate_emission_id_rejected [OF demo_insert_850 same, of "demo_env 20240605080000 0.125" "[?st]"]
    present
  have "insert_emission (demo_env 20240605080000 0.125) (demo_values ''EM_2024060101'' 1250)
          (foldl step ?d' [?st]) = Inl Duplicate_entry"
    by blast
  with demo_insert_850 later show ?thesis by simp
qed

text \<open>
  C4. In the database of every history, every credit has exactly one row of
  \<^verbatim>\<open>Credit_Emission_Map\<close>; that row has weight 1 and is flagged as included, and it names
  a stored reading; and every row of the map names a stored credit and a stored reading.
  The row is written by the insertion that wrote the credit, and names the reading just
  inserted.
\<close>

theorem credit_linked_exactly_once:
  "(\<forall>c\<in>set (Carbon_Credit (run sts)).
      \<exists>m. filter (\<lambda>m. m_credit_id m = credit_id c) (Credit_Emission_Map (run sts)) = [m]
        \<and> weight_factor m = Some 1 \<and> included_flag m = Some True
        \<and> m_emission_id m \<in> set (map emission_id (Emission_Data (run sts))))
   \<and> (\<forall>m\<in>set (Credit_Emission_Map (run sts)).
        m_credit_id m \<in> set (map credit_id (Carbon_Credit (run sts)))
        \<and> m_emission_id m \<in> set (map emission_id (Emission_Data (run sts))))
   \<and> (\<forall>ev vals d d' c.
        insert_emission ev vals d = Inr d' \<and> Carbon_Credit d' = Carbon_Credit d @ [c] \<longrightarrow>
          Credit_Emission_Map d' = Credit_Emission_Map d @
            [\<lparr>map_id = ''MAP_'' @ credit_id c, m_credit_id = credit_id c,
              m_emission_id = v_emission_id vals, weight_factor = Some 1,
              included_flag = Some True\<rparr>]
          \<and> v_emission_id vals \<in> set (map emission_id (Emission_Data d')))"
proof -
  let ?d = "run sts"
  from wf_run [of sts] have linked: "linked_once ?d" and
    fk: "\<forall>m\<in>set (Credit_Emission_Map ?d). m_credit_id m \<in> set (map credit_id (Carbon_Credit ?d))"
    by (simp_all add: wf_def)
  have once: "\<exists>m. filter (\<lambda>m. m_credit_id m = credit_id c) (Credit_Emission_Map ?d) = [m]
        \<and> weight_factor m = Some 1 \<and> included_flag m = Some True
        \<and> m_emission_id m \<in> set (map emission_id (Emission_Data ?d))"
    if "c \<in> set (Carbon_Credit ?d)" for c
    using linked that unfolding linked_once_def by blast
  have refs: "m_credit_id m \<in> set (map credit_id (Carbon_Credit ?d))
        \<and> m_emission_id m \<in> set (map emission_id (Emission_Data ?d))"
    if m: "m \<in> set (Credit_Emission_Map ?d)" for m
  proof -
    from fk m have cr: "m_credit_id m \<in> set (map credit_id (Carbon_Credit ?d))" by blast
    then obtain c where c: "c \<in> set (Carbon_Credit ?d)" "credit_id c = m_credit_id m"
      by auto
    from once [OF c(1)] obtain m0 where
      m0: "filter (\<lambda>m. m_credit_id m = credit_id c) (Credit_Emission_Map ?d) = [m0]"
        "m_emission_id m0 \<in> set (map emission_id (Emission_Data ?d))"
      by blast
    from m c(2) have "m \<in> set (filter (\<lambda>m. m_credit_id m = credit_id c) (Credit_Emission_Map ?d))"
      by simp
    with m0(1) have "m = m0" by simp
    with m0(2) cr show ?thesis by simp
  qed
  have written: "Credit_Emission_Map d' = Credit_Emission_Map d @
            [\<lparr>map_id = ''MAP_'' @ credit_id c, m_credit_id = credit_id c,
              m_emission_id = v_emission_id vals, weight_factor = Some 1,
              included_flag = Some True\<rparr>]
          \<and> v_emission_id vals \<in> set (map emission_id (Emission_Data d'))"
    if "insert_emission ev vals d = Inr d'" "Carbon_Credit d' = Carbon_Credit d @ [c]"
    for ev vals d d' c
    using that
  proof (cases rule: insert_emission_cases)
    case (credit co2 sid)
    with that(2) have "c = new_credit ev 1000 co2" by simp
    then have "credit_id c = new_credit_id ev" by (simp add: new_credit_def)
    with credit(7) show ?thesis by (simp add: new_map_def new_reading_def)
  qed
  from once refs written show ?thesis by blast
qed

theorem credit_linked_exactly_once_witness:
  "\<exists>c m. Carbon_Credit (run demo_history) = [c]
       \<and> filter (\<lambda>m. m_credit_id m = credit_id c) (Credit_Emission_Map (run demo_history)) = [m]
       \<and> weight_factor m = Some 1 \<and> included_flag m = Some True
       \<and> m_emission_id m \<in> set (map emission_id (Emission_Data (run demo_history)))"
proof -
  obtain c where c: "Carbon_Credit (run demo_history) = [c]"
    by (simp add: demo_history_run)
  then have "c \<in> set (Carbon_Credit (run demo_history))" by simp
  with credit_linked_exactly_once [of demo_history] obtain m where
    "filter (\<lambda>m. m_credit_id m = credit_id c) (Credit_Emission_Map (run demo_history)) = [m]
       \<and> weight_factor m = Some 1 \<and> included_flag m = Some True
       \<and> m_emission_id m \<in> set (map emission_id (Emission_Data (run demo_history)))"
    by blast
  with c show ?thesis by blast
qed

subsection \<open>The middleware\<close>

lemma split_no_separator: "c \<notin> set s \<Longrightarrow> split c s = [s]"
  by (induction s) auto

lemma header_token_bearer:
  assumes "CHR '' '' \<notin> set t"
  shows "header_token (Some (''Bearer '' @ t)) = Some t"
  using assms by (simp add: header_token_def split_no_separator)

text \<open>
  C9. A request without an \<^verbatim>\<open>Authorization\<close> header, or whose header carries no token
  after the scheme, is answered with status 401; a request whose token is not verified
  (invalid or expired) is answered with status 403; the handler runs only for a token that
  verifies, with the verified payload as user. The middleware answers with no other
  status, and a route behind it does then not touch the database.
\<close>

theorem authenticateToken_spec:
  "authenticateToken verify None
     = Respond \<lparr>status = 401, json = Error_body ''Access token required''\<rparr>
   \<and> authenticateToken verify (Some ''Bearer'')
     = Respond \<lparr>status = 401, json = Error_body ''Access token required''\<rparr>
   \<and> authenticateToken verify (Some ''Bearer '')
     = Respond \<lparr>status = 401, json = Error_body ''Access token required''\<rparr>
   \<and> (t \<noteq> [] \<and> CHR '' '' \<notin> set t \<and> verify t = None \<longrightarrow>
        authenticateToken verify (Some (''Bearer '' @ t))
          = Respond \<lparr>status = 403, json = Error_body ''Invalid token''\<rparr>)
   \<and> (t \<noteq> [] \<and> CHR '' '' \<notin> set t \<and> verify t = Some u \<longrightarrow>
        authenticateToken verify (Some (''Bearer '' @ t)) = Next u)
   \<and> (\<forall>u'. authenticateToken verify h = Next u' \<longrightarrow>
        (\<exists>t'. t' \<noteq> [] \<and> header_token h = Some t' \<and> verify t' = Some u'))
   \<and> (\<forall>r. authenticateToken verify h = Respond r \<longrightarrow>
        (status r = 401 \<and> (header_token h = None \<or> header_token h = Some []))
        \<or> (status r = 403 \<and> (\<exists>t'. t' \<noteq> [] \<and> header_token h = Some t' \<and> verify t' = None)))
   \<and> (\<forall>r ev date_now math_random b d. authenticateToken verify h = Respond r \<longrightarrow>
        post_emissions verify ev date_now math_random h b d = (r, d)
        \<and> get_dashboard_stats verify h d = r)"
proof -
  have absent:
    "authenticateToken verify None
       = Respond \<lparr>status = 401, json = Error_body ''Access token required''\<rparr>"
    "authenticateToken verify (Some ''Bearer'')
       = Respond \<lparr>status = 401, json = Error_body ''Access token required''\<rparr>"
    "authenticateToken verify (Some ''Bearer '')
       = Respond \<lparr>status = 401, json = Error_body ''Access token required''\<rparr>"
    by (simp_all add: authenticateToken_def header_token_def)
  have invalid: "authenticateToken verify (Some (''Bearer '' @ t))
          = Respond \<lparr>status = 403, json = Error_body ''Invalid token''\<rparr>"
    if "t \<noteq> [] \<and> CHR '' '' \<notin> set t \<and> verify t = None"
    using that header_token_bearer [of t] by (simp add: authenticateToken_def del: append.simps)
  have valid: "authenticateToken verify (Some (''Bearer '' @ t)) = Next u"
    if "t \<noteq> [] \<and> CHR '' '' \<notin> set t \<and> verify t = Some u"
    using that header_token_bearer [of t] by (simp add: authenticateToken_def del: append.simps)
  have passes: "\<exists>t'. t' \<noteq> [] \<and> header_token h = Some t' \<and> verify t' = Some u'"
    if "authenticateToken verify h = Next u'" for u'
    using that by (auto simp: authenticateToken_def split: option.splits if_splits)
  have answers: "(status r = 401 \<and> (header_token h = None \<or> header_token h = Some []))
        \<or> (status r = 403 \<and> (\<exists>t'. t' \<noteq> [] \<and> header_token h = Some t' \<and> verify t' = None))"
    if "authenticateToken verify h = Respond r" for r
    using that by (auto simp: authenticateToken_def split: option.splits if_splits)
  have routes: "post_emissions verify ev date_now math_random h b d = (r, d)"
    "get_dashboard_stats verify h d = r"
    if "authenticateToken verify h = Respond r" for r ev date_now math_random b d
    using that by (simp_all add: post_emissions_def get_dashboard_stats_def)
  show ?thesis
    by (intro conjI allI impI) (rule absent invalid valid passes answers routes; assumption)+
qed

theorem authenticateToken_spec_witness:
  "authenticateToken demo_verify (Some ''Bearer expired'')
     = Respond \<lparr>status = 403, json = Error_body ''Invalid token''\<rparr>
   \<and> authenticateToken demo_verify (Some ''Bearer good'')
     = Next \<lparr>tu_user_id = 1, tu_email = ''demo@industry.com'', tu_role = ''admin''\<rparr>
   \<and> get_dashboard_stats demo_verify (Some ''Bearer expired'') (run demo_history)
     = \<lparr>status = 403, json = Error_body ''Invalid token''\<rparr>"
proof -
  have bad: "''expired'' \<noteq> [] \<and> CHR '' '' \<notin> set ''expired'' \<and> demo_verify ''expired'' = None"
    by (simp add: demo_verify_def)
  have good: "''good'' \<noteq> [] \<and> CHR '' '' \<notin> set ''good''
      \<and> demo_verify ''good'' = Some \<lparr>tu_user_id = 1, tu_email = ''demo@industry.com'', tu_role = ''admin''\<rparr>"
    by (simp add: demo_verify_def)
  note invalid = authenticateToken_spec [where verify = demo_verify and t = "''expired''",
    THEN conjunct2, THEN conjunct2, THEN conjunct2, THEN conjunct1, THEN mp, OF bad]
  note valid = authenticateToken_spec [where verify = demo_verify and t = "''good''",
    THEN conjunct2, THEN conjunct2, THEN conjunct2, THEN conjunct2, THEN conjunct1,
    THEN mp, OF good]
  note route = authenticateToken_spec [where verify = demo_verify
      and h = "Some (''Bearer '' @ ''expired'')",
    THEN conjunct2, THEN conjunct2, THEN conjunct2, THEN conjunct2, THEN conjunct2,
    THEN conjunct2, THEN conjunct2, rule_format, OF invalid, THEN conjunct2,
    of "run demo_history"]
  from invalid valid route show ?thesis by simp
qed

subsection \<open>The ingestion route\<close>

lemma record_emission_status:
  "(\<exists>err. insert_emission ev
       \<lparr>v_emission_id = request_emission_id date_now math_random, v_co2_value = b_co2_value b,
        v_pm25_value = b_pm25_value b, v_temperature = b_temperature b,
        v_humidity = b_humidity b, v_sensor_id = b_sensor_id b\<rparr> d = Inl err)
   \<Longrightarrow> record_emission ev date_now math_random b d
        = (\<lparr>status = 500, json = Error_body ''Failed to record emission''\<rparr>, d)"
  "insert_emission ev
       \<lparr>v_emission_id = request_emission_id date_now math_random, v_co2_value = b_co2_value b,
        v_pm25_value = b_pm25_value b, v_temperature = b_temperature b,
        v_humidity = b_humidity b, v_sensor_id = b_sensor_id b\<rparr> d = Inr d'
   \<Longrightarrow> record_emission ev date_now math_random b d
        = (\<lparr>status = 201, json = Emission_recorded (request_emission_id date_now math_random)\<rparr>, d')"
  by (auto simp: record_emission_def Let_def)

text \<open>
  C7, as the code has it. The handler of \<^verbatim>\<open>POST /api/emissions\<close> checks nothing itself
  and has no answer with status 400. For an authenticated request whose sensor identifier
  is missing or unknown, or whose \<open>co2_value\<close> is missing, the \<^verbatim>\<open>INSERT\<close> fails on the
  table's \<^verbatim>\<open>NOT NULL\<close> and \<^verbatim>\<open>FOREIGN KEY\<close> constraints, the answer is status 500 with
  the error \<^verbatim>\<open>Failed to record emission\<close>, and nothing is stored. The answer is 201 only
  for a known sensor and a present \<open>co2_value\<close>, and then the reading is stored with these
  values; every other answer is that 500 and leaves the database as it was.
\<close>

theorem post_emissions_rejects_by_constraint:
  assumes "authenticateToken verify h = Next u"
  shows "(b_sensor_id b = None \<or> b_co2_value b = None
          \<or> (\<exists>sid. b_sensor_id b = Some sid \<and> sid \<notin> set (map sensor_id (Sensor d))) \<longrightarrow>
            post_emissions verify ev date_now math_random h b d
              = (\<lparr>status = 500, json = Error_body ''Failed to record emission''\<rparr>, d))
       \<and> (status (fst (post_emissions verify ev date_now math_random h b d)) = 201
          \<or> post_emissions verify ev date_now math_random h b d
              = (\<lparr>status = 500, json = Error_body ''Failed to record emission''\<rparr>, d))
       \<and> (status (fst (post_emissions verify ev date_now math_random h b d)) = 201 \<longrightarrow>
            (\<exists>sid co2 r.
               b_sensor_id b = Some sid \<and> sid \<in> set (map sensor_id (Sensor d))
               \<and> b_co2_value b = Some co2
               \<and> Emission_Data (snd (post_emissions verify ev date_now math_random h b d))
                   = Emission_Data d @ [r]
               \<and> emission_id r = request_emission_id date_now math_random
               \<and> co2_value r = co2 \<and> e_sensor_id r = sid))"
proof -
  let ?vals = "\<lparr>v_emission_id = request_emission_id date_now math_random,
       v_co2_value = b_co2_value b, v_pm25_value = b_pm25_value b,
       v_temperature = b_temperature b, v_humidity = b_humidity b,
       v_sensor_id = b_sensor_id b\<rparr>"
  have post: "post_emissions verify ev date_now math_random h b d
                = record_emission ev date_now math_random b d"
    using assms by (simp add: post_emissions_def)
  show ?thesis
  proof (cases "insert_emission ev ?vals d")
    case (Inl err)
    then have "record_emission ev date_now math_random b d
              = (\<lparr>status = 500, json = Error_body ''Failed to record emission''\<rparr>, d)"
      by (intro record_emission_status(1)) blast
    then show ?thesis unfolding post by simp
  next
    case (Inr d')
    then have rec: "record_emission ev date_now math_random b d
        = (\<lparr>status = 201, json = Emission_recorded (request_emission_id date_now math_random)\<rparr>, d')"
      by (rule record_emission_status(2))
    from Inr have stored: "\<exists>sid co2 r.
               b_sensor_id b = Some sid \<and> sid \<in> set (map sensor_id (Sensor d))
               \<and> b_co2_value b = Some co2
               \<and> Emission_Data d' = Emission_Data d @ [r]
               \<and> emission_id r = request_emission_id date_now math_random
               \<and> co2_value r = co2 \<and> e_sensor_id r = sid"
    proof (cases rule: insert_emission_cases)
      case (credit co2 sid)
      then show ?thesis by (auto simp: new_reading_def)
    qed
    have "\<not> (b_sensor_id b = None \<or> b_co2_value b = None
          \<or> (\<exists>sid. b_sensor_id b = Some sid \<and> sid \<notin> set (map sensor_id (Sensor d))))"
      using stored by auto
    with rec stored show ?thesis unfolding post by simp
  qed
qed


lemma demo_verify_good:
  "authenticateToken demo_verify (Some ''Bearer good'')
     = Next \<lparr>tu_user_id = 1, tu_email = ''demo@industry.com'', tu_role = ''admin''\<rparr>"
  by (simp add: authenticateToken_def header_token_def demo_verify_def)

theorem post_emissions_rejects_by_constraint_witness:
  "post_emissions demo_verify (demo_env 20240603090000 0.75) 1717405200000 0.5
     (Some ''Bearer good'') (demo_body (Some ''SENSOR_999'') (Some 850)) (run demo_setup)
   = (\<lparr>status = 500, json = Error_body ''Failed to record emission''\<rparr>, run demo_setup)"
proof -
  have unknown: "b_sensor_id (demo_body (Some ''SENSOR_999'') (Some 850)) = None
      \<or> b_co2_value (demo_body (Some ''SENSOR_999'') (Some 850)) = None
      \<or> (\<exists>sid. b_sensor_id (demo_body (Some ''SENSOR_999'') (Some 850)) = Some sid
            \<and> sid \<notin> set (map sensor_id (Sensor (run demo_setup))))"
    by (simp add: demo_body_def demo_setup_run demo_sensor_def)
  show ?thesis
    by (rule post_emissions_rejects_by_constraint [OF demo_verify_good, THEN conjunct1,
          THEN mp, OF unknown])
qed

text \<open>
  C7, as the claim states it, fails: with a valid token, a body without sensor identifier,
  one with a sensor identifier that is not in \<^verbatim>\<open>Sensor\<close> and one without \<open>co2_value\<close> are
  each answered with status 500, not 400.
\<close>

theorem post_emissions_validation_counterexample:
  "status (fst (post_emissions demo_verify (demo_env 20240603090000 0.75) 1717405200000 0.5
     (Some ''Bearer good'') (demo_body None (Some 850)) (run demo_setup))) = 500
   \<and> status (fst (post_emissions demo_verify (demo_env 20240603090000 0.75) 1717405200000 0.5
     (Some ''Bearer good'') (demo_body None (Some 850)) (run demo_setup))) \<noteq> 400
   \<and> status (fst (post_emissions demo_verify (demo_env 20240603090000 0.75) 1717405200000 0.5
     (Some ''Bearer good'') (demo_body (Some ''SENSOR_999'') (Some 850)) (run demo_setup))) = 500
   \<and> status (fst (post_emissions demo_verify (demo_env 20240603090000 0.75) 1717405200000 0.5
     (Some ''Bearer good'') (demo_body (Some ''SENSOR_001'') None) (run demo_setup))) = 500"
  by (simp add: post_emissions_def demo_verify_good record_emission_def insert_emission_def
        demo_body_def demo_setup_run demo_sensor_def Let_def)

subsection \<open>The dashboard queries\<close>











end
